theory Spec2Isabelle
  imports Main "HOL-Library.Sublist"
begin

section \<open>Python values\<close>

text \<open>
  A task is a decoded JSON document, and the handlers read it with \<^verbatim>\<open>.get\<close> and test it
  with \<^verbatim>\<open>not\<close>. The values are therefore modelled as Python has them at run time: a
  value of any JSON type may sit in any field. A \<^verbatim>\<open>dict\<close> is an association list in
  insertion order (its keys are the strings of a JSON object), so that a Result reads as
  the dict literal of the source. Floating-point numbers are left out.
\<close>

datatype pyval =
    PNone
  | PBool bool
  | PInt int
  | PStr string
  | PList "pyval list"
  | PDict "(string \<times> pyval) list"

text \<open>
  The exceptions the modelled code paths can raise. \<open>ValueError\<close> carries its message;
  the others are raised by the runtime and the library.
\<close>

datatype exn =
    ValueError string
  | TypeError
  | AttributeError
  | LookupError
  | UnicodeEncodeError
  | FileNotFoundError
  | FileExistsError
  | NotADirectoryError
  | IsADirectoryError
  | CalledProcessError int

type_synonym 'a outcome = "exn + 'a"

text \<open>Truth value testing, as \<^verbatim>\<open>not x\<close> and \<^verbatim>\<open>if x\<close> apply it.\<close>

fun truthy :: "pyval \<Rightarrow> bool" where
  "truthy PNone = False"
| "truthy (PBool b) = b"
| "truthy (PInt i) = (i \<noteq> 0)"
| "truthy (PStr s) = (s \<noteq> [])"
| "truthy (PList xs) = (xs \<noteq> [])"
| "truthy (PDict kvs) = (kvs \<noteq> [])"

text \<open>
  \<^verbatim>\<open>v.get(k, d)\<close>: only a dict has the method; on any other value the attribute lookup
  raises \<open>AttributeError\<close>. \<^verbatim>\<open>v.get(k)\<close> is \<^verbatim>\<open>v.get(k, None)\<close>.
\<close>

fun dict_get_default :: "pyval \<Rightarrow> string \<Rightarrow> pyval \<Rightarrow> pyval outcome" where
  "dict_get_default (PDict kvs) k d = Inr (case map_of kvs k of None \<Rightarrow> d | Some v \<Rightarrow> v)"
| "dict_get_default v k d = Inl AttributeError"

definition dict_get :: "pyval \<Rightarrow> string \<Rightarrow> pyval outcome" where
  "dict_get v k = dict_get_default v k PNone"

text \<open>
  \<^verbatim>\<open>[cmd] + args\<close>: list concatenation, \<open>TypeError\<close> when the right operand is not a
  list.
\<close>

fun list_add :: "pyval list \<Rightarrow> pyval \<Rightarrow> pyval list outcome" where
  "list_add xs (PList ys) = Inr (xs @ ys)"
| "list_add xs v = Inl TypeError"

section \<open>The file system\<close>

text \<open>
  A POSIX file system without symbolic links or permissions: a partial map from absolute
  paths (lists of components below the root) to entries, and the process's current
  directory. A file holds its bytes.
\<close>

type_synonym bytes = "char list"

datatype node = File bytes | Dir

type_synonym path = "string list"

record world =
  files :: "path \<Rightarrow> node option"
  cwd :: path

text \<open>
  \<^verbatim>\<open>pathlib.Path(s)\<close> on POSIX keeps the root (\<^verbatim>\<open>/\<close>, or \<^verbatim>\<open>//\<close> for exactly two leading
  slashes) and the components between slashes, dropping empty ones and \<^verbatim>\<open>.\<close>; it keeps
  \<^verbatim>\<open>..\<close>. The constructor raises \<open>TypeError\<close> on anything that is not a string.
\<close>

fun split_on :: "char \<Rightarrow> string \<Rightarrow> string list" where
  "split_on c [] = [[]]"
| "split_on c (x # xs) =
     (if x = c then [] # split_on c xs
      else (case split_on c xs of [] \<Rightarrow> [[x]] | w # ws \<Rightarrow> (x # w) # ws))"

fun join :: "string \<Rightarrow> string list \<Rightarrow> string" where
  "join sep [] = []"
| "join sep [w] = w"
| "join sep (w # ws) = w @ sep @ join sep ws"

record pypath =
  root :: string
  parts :: "string list"

definition path_root :: "string \<Rightarrow> string" where
  "path_root s =
     (if take 2 s = ''//'' \<and> take 3 s \<noteq> ''///'' then ''//''
      else if take 1 s = ''/'' then ''/''
      else [])"

definition path_parts :: "string \<Rightarrow> string list" where
  "path_parts s = filter (\<lambda>c. c \<noteq> [] \<and> c \<noteq> ''.'') (split_on CHR ''/'' s)"

fun Path :: "pyval \<Rightarrow> pypath outcome" where
  "Path (PStr s) = Inr \<lparr>root = path_root s, parts = path_parts s\<rparr>"
| "Path v = Inl TypeError"

text \<open>\<^verbatim>\<open>str(path)\<close>, which the \<^verbatim>\<open>%s\<close> of the error messages prints.\<close>

definition path_str :: "pypath \<Rightarrow> string" where
  "path_str p =
     (if root p = [] \<and> parts p = [] then ''.'' else root p @ join ''/'' (parts p))"

text \<open>
  Path resolution by the operating system: from the root or the current directory, one
  component at a time; every directory passed through must exist (\<open>ENOENT\<close> otherwise)
  and be a directory (\<open>ENOTDIR\<close>). The last component need not exist.
\<close>

fun walk :: "(path \<Rightarrow> node option) \<Rightarrow> path \<Rightarrow> string list \<Rightarrow> path outcome" where
  "walk fs cur [] = Inr cur"
| "walk fs cur (c # cs) =
     (case fs cur of
        None \<Rightarrow> Inl FileNotFoundError
      | Some (File b) \<Rightarrow> Inl NotADirectoryError
      | Some Dir \<Rightarrow> walk fs (if c = ''..'' then butlast cur else cur @ [c]) cs)"

definition locate :: "world \<Rightarrow> pypath \<Rightarrow> path outcome" where
  "locate w p = walk (files w) (if root p = [] then cwd w else []) (parts p)"

text \<open>The directory that is to hold a new entry must exist.\<close>

definition parent_check :: "(path \<Rightarrow> node option) \<Rightarrow> path \<Rightarrow> exn option" where
  "parent_check fs q =
     (if q = [] then None
      else (case fs (butlast q) of
              None \<Rightarrow> Some FileNotFoundError
            | Some (File b) \<Rightarrow> Some NotADirectoryError
            | Some Dir \<Rightarrow> None))"

text \<open>
  \<^verbatim>\<open>Path.exists\<close> and \<^verbatim>\<open>Path.is_dir\<close> answer \<open>False\<close> where resolution fails.
\<close>

definition path_exists :: "world \<Rightarrow> pypath \<Rightarrow> bool" where
  "path_exists w p = (case locate w p of Inl e \<Rightarrow> False | Inr q \<Rightarrow> files w q \<noteq> None)"

definition path_is_dir :: "world \<Rightarrow> pypath \<Rightarrow> bool" where
  "path_is_dir w p = (case locate w p of Inl e \<Rightarrow> False | Inr q \<Rightarrow> files w q = Some Dir)"

definition path_mkdir :: "world \<Rightarrow> pypath \<Rightarrow> world outcome" where
  "path_mkdir w p =
     (case locate w p of
        Inl e \<Rightarrow> Inl e
      | Inr q \<Rightarrow>
          if files w q \<noteq> None then Inl FileExistsError
          else (case parent_check (files w) q of
                  Some e \<Rightarrow> Inl e
                | None \<Rightarrow> Inr (w\<lparr>files := (files w)(q \<mapsto> Dir)\<rparr>)))"

definition path_unlink :: "world \<Rightarrow> pypath \<Rightarrow> world outcome" where
  "path_unlink w p =
     (case locate w p of
        Inl e \<Rightarrow> Inl e
      | Inr q \<Rightarrow>
          (case files w q of
             None \<Rightarrow> Inl FileNotFoundError
           | Some Dir \<Rightarrow> Inl IsADirectoryError
           | Some (File b) \<Rightarrow> Inr (w\<lparr>files := (files w)(q := None)\<rparr>)))"

text \<open>\<^verbatim>\<open>shutil.rmtree\<close>: the directory and everything below it.\<close>

definition rmtree :: "world \<Rightarrow> pypath \<Rightarrow> world outcome" where
  "rmtree w p =
     (case locate w p of
        Inl e \<Rightarrow> Inl e
      | Inr q \<Rightarrow>
          (case files w q of
             None \<Rightarrow> Inl FileNotFoundError
           | Some (File b) \<Rightarrow> Inl NotADirectoryError
           | Some Dir \<Rightarrow> Inr (w\<lparr>files := (\<lambda>r. if prefix q r then None else files w r)\<rparr>)))"

section \<open>The host: runtime and library functions the module calls\<close>

text \<open>
  What the Python runtime and the operating system decide is a parameter of the model:
  \<^item> \<open>text_encode\<close>: the codec table. \<open>text_encode h name\<close> is \<open>None\<close> for an unknown
    codec name (\<^verbatim>\<open>LookupError\<close>); otherwise it gives the bytes a text file opened with
    that encoding writes for a string, or \<open>None\<close> where the string cannot be encoded
    (\<^verbatim>\<open>UnicodeEncodeError\<close>);
  \<^item> \<open>locale_encoding\<close>: the codec name used when \<^verbatim>\<open>encoding=None\<close> reaches \<^verbatim>\<open>open\<close>;
  \<^item> \<open>py_repr\<close>: \<^verbatim>\<open>str(v)\<close> of a value that is not a string;
  \<^item> \<open>dumps\<close>: \<^verbatim>\<open>json.dumps\<close>;
  \<^item> \<open>run_process\<close>: executing a program with an argument vector, a working directory
    and an environment (\<open>None\<close>: inherited from the server), waiting for it to end. It
    gives the exit status, or the exception of a failed start, and the world the child
    leaves behind.
\<close>

record proc_call =
  argv :: "string list"
  call_cwd :: "string option"
  call_env :: "(string \<times> string) list option"

record host =
  text_encode :: "string \<Rightarrow> (string \<Rightarrow> bytes option) option"
  locale_encoding :: string
  py_repr :: "pyval \<Rightarrow> string"
  dumps :: "pyval \<Rightarrow> string"
  run_process :: "proc_call \<Rightarrow> world \<Rightarrow> int outcome \<times> world"

text \<open>\<^verbatim>\<open>'%s' % (v,)\<close> formats \<^verbatim>\<open>str(v)\<close>, which is \<open>v\<close> itself for a string.\<close>

definition py_str :: "host \<Rightarrow> pyval \<Rightarrow> string" where
  "py_str h v = (case v of PStr s \<Rightarrow> s | _ \<Rightarrow> py_repr h v)"

subsection \<open>Text files opened for writing\<close>

text \<open>
  \<^verbatim>\<open>path.open(mode='w', encoding=encoding)\<close>: the argument must be a string or \<open>None\<close>
  (checked before anything is opened); the file is then created in an existing
  directory, or truncated (a directory cannot be opened for writing); only then is the
  codec looked up, so an unknown codec leaves the empty file behind.
\<close>

record textfile =
  tf_path :: path
  tf_encode :: "string \<Rightarrow> bytes option"

fun encoding_name :: "host \<Rightarrow> pyval \<Rightarrow> string outcome" where
  "encoding_name h PNone = Inr (locale_encoding h)"
| "encoding_name h (PStr s) = Inr s"
| "encoding_name h v = Inl TypeError"

definition open_error :: "world \<Rightarrow> path \<Rightarrow> exn option" where
  "open_error w q =
     (case files w q of
        Some Dir \<Rightarrow> Some IsADirectoryError
      | Some (File b) \<Rightarrow> None
      | None \<Rightarrow> parent_check (files w) q)"

definition path_open_w :: "host \<Rightarrow> world \<Rightarrow> pypath \<Rightarrow> pyval \<Rightarrow> textfile outcome \<times> world" where
  "path_open_w h w p encoding =
     (case encoding_name h encoding of
        Inl e \<Rightarrow> (Inl e, w)
      | Inr enc \<Rightarrow>
          (case locate w p of
             Inl e \<Rightarrow> (Inl e, w)
           | Inr q \<Rightarrow>
               (case open_error w q of
                  Some e \<Rightarrow> (Inl e, w)
                | None \<Rightarrow>
               (case text_encode h enc of
                  None \<Rightarrow> (Inl LookupError, w\<lparr>files := (files w)(q \<mapsto> File [])\<rparr>)
                | Some f \<Rightarrow>
                    (Inr \<lparr>tf_path = q, tf_encode = f\<rparr>,
                     w\<lparr>files := (files w)(q \<mapsto> File [])\<rparr>)))))"

text \<open>
  \<^verbatim>\<open>f.write(v)\<close>: \<open>TypeError\<close> unless \<open>v\<close> is a string; the encoded bytes are appended to
  the file (they reach it when the \<^verbatim>\<open>with\<close> block closes the file).
\<close>

definition file_write :: "textfile \<Rightarrow> pyval \<Rightarrow> world \<Rightarrow> unit outcome \<times> world" where
  "file_write f v w =
     (case v of
        PStr s \<Rightarrow>
          (case tf_encode f s of
             None \<Rightarrow> (Inl UnicodeEncodeError, w)
           | Some b \<Rightarrow>
               (Inr (),
                w\<lparr>files := (files w)(tf_path f \<mapsto>
                     File ((case files w (tf_path f) of Some (File old) \<Rightarrow> old | _ \<Rightarrow> []) @ b))\<rparr>))
      | _ \<Rightarrow> (Inl TypeError, w))"

subsection \<open>Running a command\<close>

text \<open>
  \<^verbatim>\<open>subprocess.run(args, cwd=cwd, env=env, shell=True, check=True)\<close> on POSIX. The
  environment is converted first (\<^verbatim>\<open>env.items()\<close>, then each name and value), then the
  argument list and the working directory. With \<^verbatim>\<open>shell=True\<close> and a list, the library
  executes \<^verbatim>\<open>['/bin/sh', '-c'] + args\<close>: as its documentation has it, the first item is
  the command string and the other items are arguments to the shell itself. With
  \<^verbatim>\<open>check=True\<close> a non-zero exit status raises \<open>CalledProcessError\<close>.
\<close>

fun env_items :: "(string \<times> pyval) list \<Rightarrow> (string \<times> string) list outcome" where
  "env_items [] = Inr []"
| "env_items ((k, v) # kvs) =
     (if CHR ''='' \<in> set k then Inl (ValueError ''illegal environment variable name'')
      else (case v of
              PStr s \<Rightarrow> (case env_items kvs of Inl e \<Rightarrow> Inl e | Inr r \<Rightarrow> Inr ((k, s) # r))
            | _ \<Rightarrow> Inl TypeError))"

fun env_arg :: "pyval \<Rightarrow> (string \<times> string) list option outcome" where
  "env_arg PNone = Inr None"
| "env_arg (PDict kvs) = (case env_items kvs of Inl e \<Rightarrow> Inl e | Inr r \<Rightarrow> Inr (Some r))"
| "env_arg v = Inl AttributeError"

fun str_items :: "pyval list \<Rightarrow> string list outcome" where
  "str_items [] = Inr []"
| "str_items (PStr s # vs) = (case str_items vs of Inl e \<Rightarrow> Inl e | Inr r \<Rightarrow> Inr (s # r))"
| "str_items (v # vs) = Inl TypeError"

fun cwd_arg :: "pyval \<Rightarrow> string option outcome" where
  "cwd_arg PNone = Inr None"
| "cwd_arg (PStr s) = Inr (Some s)"
| "cwd_arg v = Inl TypeError"

definition subprocess_run ::
  "host \<Rightarrow> pyval list \<Rightarrow> pyval \<Rightarrow> pyval \<Rightarrow> world \<Rightarrow> int outcome \<times> world" where
  "subprocess_run h args cwd_v env_v w =
     (case env_arg env_v of
        Inl e \<Rightarrow> (Inl e, w)
      | Inr envl \<Rightarrow>
          (case str_items args of
             Inl e \<Rightarrow> (Inl e, w)
           | Inr strs \<Rightarrow>
               (case cwd_arg cwd_v of
                  Inl e \<Rightarrow> (Inl e, w)
                | Inr dir \<Rightarrow>
                    (case run_process h
                            \<lparr>argv = [''/bin/sh'', ''-c''] @ strs, call_cwd = dir, call_env = envl\<rparr> w of
                       (Inl e, w') \<Rightarrow> (Inl e, w')
                     | (Inr rc, w') \<Rightarrow>
                         if rc \<noteq> 0 then (Inl (CalledProcessError rc), w') else (Inr rc, w')))))"

text \<open>
  What \<^verbatim>\<open>sh -c script name arg ...\<close> executes when \<open>script\<close> is one plain word (letters and
  digits only) naming a program, as the allow-listed commands are: that program, with
  no arguments. The strings after the script are the shell's own \<^verbatim>\<open>$0\<close>, \<^verbatim>\<open>$1\<close>, ...,
  which such a script never mentions. Other scripts are not modelled (\<open>None\<close>).
\<close>

definition plain_char :: "char \<Rightarrow> bool" where
  "plain_char c =
     (c \<in> set ''abcdefghijklmnopqrstuvwxyzABCDEFGHIJKLMNOPQRSTUVWXYZ0123456789'')"

fun sh_c_program_argv :: "string list \<Rightarrow> string list option" where
  "sh_c_program_argv (sh # flag # script # rest) =
     (if flag = ''-c'' \<and> script \<noteq> [] \<and> list_all plain_char script then Some [script] else None)"
| "sh_c_program_argv xs = None"

section \<open>The module\<close>

definition DEFAULT_ENCODING :: string where
  "DEFAULT_ENCODING = ''utf-8''"

subsection \<open>Result builders\<close>

definition make_task_success :: "pyval \<Rightarrow> pyval outcome" where
  "make_task_success task =
     (case dict_get task ''id'' of
        Inl e \<Rightarrow> Inl e
      | Inr i \<Rightarrow>
          (case dict_get task ''action'' of
             Inl e \<Rightarrow> Inl e
           | Inr a \<Rightarrow> Inr (PDict [(''id'', i), (''action'', a), (''success'', PBool True)])))"

definition make_task_error :: "pyval \<Rightarrow> string \<Rightarrow> string \<Rightarrow> pyval outcome" where
  "make_task_error task type message =
     (case dict_get task ''id'' of
        Inl e \<Rightarrow> Inl e
      | Inr i \<Rightarrow>
          (case dict_get task ''action'' of
             Inl e \<Rightarrow> Inl e
           | Inr a \<Rightarrow>
               Inr (PDict [(''id'', i), (''action'', a), (''success'', PBool False),
                           (''error'', PDict [(''type'', PStr type), (''message'', PStr message)])])))"

subsection \<open>Handlers\<close>

type_synonym handler = "host \<Rightarrow> world \<Rightarrow> pyval \<Rightarrow> pyval outcome \<times> world"

text \<open>
  The body of the \<^verbatim>\<open>with\<close> block shared by \<^verbatim>\<open>file/create\<close> and \<^verbatim>\<open>file/edit\<close>: open, then
  evaluate \<^verbatim>\<open>content.get('value')\<close>, then write; an exception in the block closes the
  file and propagates.
\<close>

definition write_content :: "host \<Rightarrow> world \<Rightarrow> pypath \<Rightarrow> pyval \<Rightarrow> pyval \<Rightarrow> unit outcome \<times> world" where
  "write_content h w task_path encoding content =
     (case path_open_w h w task_path encoding of
        (Inl e, w1) \<Rightarrow> (Inl e, w1)
      | (Inr f, w1) \<Rightarrow>
          (case dict_get content ''value'' of
             Inl e \<Rightarrow> (Inl e, w1)
           | Inr v \<Rightarrow> file_write f v w1))"

definition task_file_create :: handler where
  "task_file_create h w task =
     (if \<not> truthy task then (make_task_error task ''argument'' ''`task` must be specified'', w)
      else (case dict_get task ''path'' of
        Inl e \<Rightarrow> (Inl e, w)
      | Inr pv \<Rightarrow>
      (case Path pv of
        Inl e \<Rightarrow> (Inl e, w)
      | Inr task_path \<Rightarrow>
          if path_exists w task_path then
            (make_task_error task ''argument''
               (''A file or directory at path `'' @ path_str task_path @ ''` already exists''), w)
          else (case dict_get task ''content'' of
            Inl e \<Rightarrow> (Inl e, w)
          | Inr content \<Rightarrow>
              if \<not> truthy content then
                (case path_mkdir w task_path of
                   Inl e \<Rightarrow> (Inl e, w)
                 | Inr w' \<Rightarrow> (make_task_success task, w'))
              else (case dict_get_default content ''encoding'' (PStr DEFAULT_ENCODING) of
                Inl e \<Rightarrow> (Inl e, w)
              | Inr encoding \<Rightarrow>
                  (case write_content h w task_path encoding content of
                     (Inl e, w') \<Rightarrow> (Inl e, w')
                   | (Inr u, w') \<Rightarrow> (make_task_success task, w')))))))"

definition task_file_edit :: handler where
  "task_file_edit h w task =
     (if \<not> truthy task then (make_task_error task ''argument'' ''`task` must be specified'', w)
      else (case dict_get task ''path'' of
        Inl e \<Rightarrow> (Inl e, w)
      | Inr pv \<Rightarrow>
      (case Path pv of
        Inl e \<Rightarrow> (Inl e, w)
      | Inr task_path \<Rightarrow>
          if \<not> path_exists w task_path then
            (make_task_error task ''argument''
               (''A file or directory at path `'' @ path_str task_path @ ''` does not exist''), w)
          else if path_is_dir w task_path then
            (make_task_error task ''argument''
               (''A directory at path `'' @ path_str task_path @ ''` already exists''), w)
          else (case dict_get task ''content'' of
            Inl e \<Rightarrow> (Inl e, w)
          | Inr content \<Rightarrow>
              if \<not> truthy content then
                (make_task_error task ''argument'' ''`content` must exist for file editing'', w)
              else (case dict_get_default content ''encoding'' (PStr DEFAULT_ENCODING) of
                Inl e \<Rightarrow> (Inl e, w)
              | Inr encoding \<Rightarrow>
                  (case write_content h w task_path encoding content of
                     (Inl e, w') \<Rightarrow> (Inl e, w')
                   | (Inr u, w') \<Rightarrow> (make_task_success task, w')))))))"

definition task_file_delete :: handler where
  "task_file_delete h w task =
     (if \<not> truthy task then (make_task_error task ''argument'' ''`task` must be specified'', w)
      else (case dict_get task ''path'' of
        Inl e \<Rightarrow> (Inl e, w)
      | Inr pv \<Rightarrow>
      (case Path pv of
        Inl e \<Rightarrow> (Inl e, w)
      | Inr task_path \<Rightarrow>
          if \<not> path_exists w task_path then
            (make_task_error task ''argument''
               (''A file or directory at path `'' @ path_str task_path @ ''` does not exist''), w)
          else (case (if path_is_dir w task_path then rmtree w task_path
                      else path_unlink w task_path) of
                  Inl e \<Rightarrow> (Inl e, w)
                | Inr w' \<Rightarrow> (make_task_success task, w')))))"

definition SAFE_COMMANDS :: "string list" where
  "SAFE_COMMANDS = [''python'', ''node'', ''git'', ''uv'']"

text \<open>
  \<^verbatim>\<open>cmd in SAFE_COMMANDS\<close> compares \<open>cmd\<close> with each string by \<^verbatim>\<open>==\<close>; only an equal string
  compares equal to a string.
\<close>

fun in_strings :: "pyval \<Rightarrow> string list \<Rightarrow> bool" where
  "in_strings (PStr s) xs = (s \<in> set xs)"
| "in_strings v xs = False"

definition task_command_run :: handler where
  "task_command_run h w task =
     (if \<not> truthy task then (make_task_error task ''argument'' ''`task` must be specified'', w)
      else (case dict_get task ''command'' of
        Inl e \<Rightarrow> (Inl e, w)
      | Inr cmd \<Rightarrow>
          if \<not> truthy cmd then
            (make_task_error task ''argument'' ''A `command` must be specified'', w)
          else if \<not> in_strings cmd SAFE_COMMANDS then
            (make_task_error task ''argument''
               (''The command `'' @ py_str h cmd @ ''` is not currently available to run''), w)
          else (case dict_get task ''path'' of
            Inl e \<Rightarrow> (Inl e, w)
          | Inr cwd_v \<Rightarrow>
          (case dict_get task ''environment'' of
            Inl e \<Rightarrow> (Inl e, w)
          | Inr env_v \<Rightarrow>
          (case dict_get_default task ''arguments'' (PList []) of
            Inl e \<Rightarrow> (Inl e, w)
          | Inr args \<Rightarrow>
          (case list_add [cmd] args of
            Inl e \<Rightarrow> (Inl e, w)
          | Inr argl \<Rightarrow>
              (case subprocess_run h argl cwd_v env_v w of
                 (Inl e, w') \<Rightarrow> (Inl e, w')
               | (Inr rc, w') \<Rightarrow> (make_task_success task, w'))))))))"

subsection \<open>The registry and the dispatcher\<close>

type_synonym registry = "string \<Rightarrow> handler option"

definition register_task_action_handler :: "registry \<Rightarrow> string \<Rightarrow> handler \<Rightarrow> registry outcome" where
  "register_task_action_handler reg action handler =
     (if reg action \<noteq> None then
        Inl (ValueError (''A handler for `'' @ action @ ''` already exists. Actions must be unique.''))
      else Inr (reg(action \<mapsto> handler)))"

text \<open>
  \<^verbatim>\<open>action not in TASK_ACTION_HANDLERS\<close> hashes \<open>action\<close>: a list or a dict is unhashable
  (\<open>TypeError\<close>); any other value that is not a string equals no key.
\<close>

definition get_task_action_handler :: "host \<Rightarrow> registry \<Rightarrow> pyval \<Rightarrow> handler outcome" where
  "get_task_action_handler h reg action =
     (if \<not> truthy action then Inl (ValueError ''`handler` must be specified'')
      else (case action of
              PList xs \<Rightarrow> Inl TypeError
            | PDict kvs \<Rightarrow> Inl TypeError
            | PStr a \<Rightarrow>
                (case reg a of
                   None \<Rightarrow> Inl (ValueError (''A handler for `'' @ a @ ''` does not exist.''))
                 | Some handler \<Rightarrow> Inr handler)
            | _ \<Rightarrow> Inl (ValueError (''A handler for `'' @ py_str h action @ ''` does not exist.''))))"

definition TASKS :: "(string \<times> handler) list" where
  "TASKS =
     [(''file/create'', task_file_create),
      (''file/edit'', task_file_edit),
      (''file/delete'', task_file_delete),
      (''command/run'', task_command_run)]"

text \<open>The registration loop run at import; the first exception ends it.\<close>

fun register_all :: "registry \<Rightarrow> (string \<times> handler) list \<Rightarrow> registry outcome" where
  "register_all reg [] = Inr reg"
| "register_all reg ((action, handler) # rest) =
     (case register_task_action_handler reg action handler of
        Inl e \<Rightarrow> Inl e
      | Inr reg' \<Rightarrow> register_all reg' rest)"

definition TASK_ACTION_HANDLERS :: "registry outcome" where
  "TASK_ACTION_HANDLERS = register_all Map.empty TASKS"

definition run_task :: "host \<Rightarrow> registry \<Rightarrow> world \<Rightarrow> pyval \<Rightarrow> string outcome \<times> world" where
  "run_task h reg w task =
     (if \<not> truthy task then (Inl (ValueError ''`task` must be specified''), w)
      else (case dict_get task ''id'' of
        Inl e \<Rightarrow> (Inl e, w)
      | Inr i \<Rightarrow>
          if \<not> truthy i then (Inl (ValueError ''`task` must be have a `id` specified''), w)
          else (case dict_get task ''action'' of
            Inl e \<Rightarrow> (Inl e, w)
          | Inr action \<Rightarrow>
              (case get_task_action_handler h reg action of
                 Inl e \<Rightarrow> (Inl e, w)
               | Inr handler \<Rightarrow>
                   (case handler h w task of
                      (Inl e, w') \<Rightarrow> (Inl e, w')
                    | (Inr response, w') \<Rightarrow> (Inr (dumps h response), w'))))))"

section \<open>Reading a Result\<close>

text \<open>
  What a caller observes of a Result: the \<open>success\<close> flag, and for an error its \<open>type\<close>
  and \<open>message\<close>.
\<close>

definition is_success :: "pyval \<Rightarrow> bool" where
  "is_success r =
     (dict_get r ''success'' = Inr (PBool True) \<and> dict_get r ''error'' = Inr PNone)"

definition is_argument_error :: "pyval \<Rightarrow> bool" where
  "is_argument_error r =
     (dict_get r ''success'' = Inr (PBool False) \<and>
      (case dict_get r ''error'' of
         Inl e \<Rightarrow> False
       | Inr err \<Rightarrow> dict_get err ''type'' = Inr (PStr ''argument'')))"

definition error_message :: "pyval \<Rightarrow> pyval outcome" where
  "error_message r =
     (case dict_get r ''error'' of Inl e \<Rightarrow> Inl e | Inr err \<Rightarrow> dict_get err ''message'')"

text \<open>\<^verbatim>\<open>task.get(k)\<close> of a task that is a dict.\<close>

definition field :: "(string \<times> pyval) list \<Rightarrow> string \<Rightarrow> pyval" where
  "field kvs k = (case map_of kvs k of None \<Rightarrow> PNone | Some v \<Rightarrow> v)"



section \<open>A concrete host and world\<close>

text \<open>
  A small host on which the model runs: UTF-8 and ASCII codecs over the code points below
  256, and child processes that exit with status 0 and touch nothing. The world holds the
  directories \<^verbatim>\<open>/tmp\<close> and \<^verbatim>\<open>/tmp/x\<close> and one file, \<^verbatim>\<open>/tmp/x/old.txt\<close>; the server runs in
  \<^verbatim>\<open>/tmp/x\<close>.
\<close>

definition utf8_encode :: "string \<Rightarrow> bytes" where
  "utf8_encode s =
     concat (map (\<lambda>c. if of_char c < (128 :: nat) then [c]
                      else [char_of (192 + of_char c div 64 :: nat),
                            char_of (128 + of_char c mod 64 :: nat)]) s)"

definition ascii_encode :: "string \<Rightarrow> bytes option" where
  "ascii_encode s = (if list_all (\<lambda>c. of_char c < (128 :: nat)) s then Some s else None)"

definition example_host :: host where
  "example_host =
     \<lparr>text_encode =
        (\<lambda>name. if name = ''utf-8'' then Some (\<lambda>s. Some (utf8_encode s))
                else if name = ''ascii'' then Some ascii_encode
                else None),
      locale_encoding = ''utf-8'',
      py_repr = (\<lambda>v. ''<object>''),
      dumps = (\<lambda>v. ''<json>''),
      run_process = (\<lambda>c w. (Inr 0, w))\<rparr>"

definition example_world :: world where
  "example_world =
     \<lparr>files = [[] \<mapsto> Dir, [''tmp''] \<mapsto> Dir, [''tmp'', ''x''] \<mapsto> Dir,
               [''tmp'', ''x'', ''old.txt''] \<mapsto> File ''old''],
      cwd = [''tmp'', ''x'']\<rparr>"

text \<open>The registry as the module leaves it after import.\<close>

definition module_registry :: registry where
  "module_registry = (case TASK_ACTION_HANDLERS of Inl e \<Rightarrow> Map.empty | Inr reg \<Rightarrow> reg)"

section \<open>Properties\<close>

subsection \<open>Results of the builders\<close>

lemma make_task_success_fields:
  assumes "make_task_success task = Inr r"
  shows "dict_get r ''id'' = dict_get task ''id''"
    and "dict_get r ''action'' = dict_get task ''action''"
    and "is_success r"
  using assms
  by (auto simp: make_task_success_def dict_get_def is_success_def split: sum.splits)

lemma make_task_error_fields:
  assumes "make_task_error task t m = Inr r"
  shows "dict_get r ''id'' = dict_get task ''id''"
    and "dict_get r ''action'' = dict_get task ''action''"
    and "t = ''argument'' \<Longrightarrow> is_argument_error r"
    and "error_message r = Inr (PStr m)"
  using assms
  by (auto simp: make_task_error_def dict_get_def is_argument_error_def error_message_def
      split: sum.splits)

text \<open>Whatever a handler returns was built by one of the two builders from its task.\<close>

lemma task_file_create_result:
  assumes "task_file_create h w task = (Inr r, w')"
  shows "make_task_success task = Inr r \<or> (\<exists>m. make_task_error task ''argument'' m = Inr r)"
  using assms unfolding task_file_create_def
  by (auto split: if_splits sum.splits prod.splits)

lemma task_file_edit_result:
  assumes "task_file_edit h w task = (Inr r, w')"
  shows "make_task_success task = Inr r \<or> (\<exists>m. make_task_error task ''argument'' m = Inr r)"
  using assms unfolding task_file_edit_def
  by (auto split: if_splits sum.splits prod.splits)

lemma task_file_delete_result:
  assumes "task_file_delete h w task = (Inr r, w')"
  shows "make_task_success task = Inr r \<or> (\<exists>m. make_task_error task ''argument'' m = Inr r)"
  using assms unfolding task_file_delete_def
  by (auto split: if_splits sum.splits prod.splits)

lemma task_command_run_result:
  assumes "task_command_run h w task = (Inr r, w')"
  shows "make_task_success task = Inr r \<or> (\<exists>m. make_task_error task ''argument'' m = Inr r)"
  using assms unfolding task_command_run_def
  by (auto split: if_splits sum.splits prod.splits)

text \<open>
  C2. Whenever one of the four registered handlers returns a Result for a task, on the
  success path or on an error path, the Result's \<open>id\<close> and \<open>action\<close> are what
  \<^verbatim>\<open>task.get('id')\<close> and \<^verbatim>\<open>task.get('action')\<close> give on the task.
\<close>

theorem handler_result_correlates:
  assumes "handler \<in> snd ` set TASKS"
    and "handler h w task = (Inr r, w')"
  shows "dict_get r ''id'' = dict_get task ''id'' \<and>
         dict_get r ''action'' = dict_get task ''action''"
proof -
  from assms(1) consider "handler = task_file_create" | "handler = task_file_edit"
    | "handler = task_file_delete" | "handler = task_command_run"
    by (auto simp: TASKS_def)
  then have "make_task_success task = Inr r \<or>
             (\<exists>m. make_task_error task ''argument'' m = Inr r)"
  proof cases
    case 1
    with assms(2) show ?thesis by (simp add: task_file_create_result)
  next
    case 2
    with assms(2) show ?thesis by (simp add: task_file_edit_result)
  next
    case 3
    with assms(2) show ?thesis by (simp add: task_file_delete_result)
  next
    case 4
    with assms(2) show ?thesis by (simp add: task_command_run_result)
  qed
  then show ?thesis
    using make_task_success_fields(1,2) make_task_error_fields(1,2) by blast
qed

subsection \<open>Reading a task\<close>

lemma dict_get_truthy:
  assumes "dict_get task k = Inr v" and "v \<noteq> PNone"
  shows "truthy task"
  using assms by (cases task) (auto simp: dict_get_def)

lemma dict_get_is_dict:
  assumes "dict_get task k = Inr v"
  shows "\<exists>kvs. task = PDict kvs \<and> v = field kvs k"
  using assms by (cases task) (auto simp: dict_get_def field_def)

lemma make_task_error_dict:
  "make_task_error (PDict kvs) t m =
     Inr (PDict [(''id'', field kvs ''id''), (''action'', field kvs ''action''),
                 (''success'', PBool False),
                 (''error'', PDict [(''type'', PStr t), (''message'', PStr m)])])"
  by (simp add: make_task_error_def dict_get_def field_def)

lemma make_task_success_dict:
  "make_task_success (PDict kvs) =
     Inr (PDict [(''id'', field kvs ''id''), (''action'', field kvs ''action''),
                 (''success'', PBool True)])"
  by (simp add: make_task_success_def dict_get_def field_def)

lemma make_task_error_argument:
  "\<exists>r. make_task_error (PDict kvs) ''argument'' m = Inr r \<and> is_argument_error r \<and>
       error_message r = Inr (PStr m)"
  by (simp add: make_task_error_dict is_argument_error_def error_message_def dict_get_def)

lemma make_task_success_not_error:
  assumes "make_task_success task = Inr r"
  shows "\<not> is_argument_error r"
  using assms
  by (auto simp: make_task_success_def is_argument_error_def dict_get_def split: sum.splits)

subsection \<open>The allow-list of \<^verbatim>\<open>command/run\<close>\<close>

lemma command_run_absent:
  assumes "dict_get task ''command'' = Inr cmd" and "\<not> truthy cmd"
  shows "\<exists>r. task_command_run h w task = (Inr r, w) \<and> is_argument_error r"
proof -
  from assms(1) obtain kvs where task: "task = PDict kvs"
    using dict_get_is_dict by blast
  show ?thesis
  proof (cases "kvs = []")
    case True
    then show ?thesis
      using make_task_error_argument [of kvs] by (auto simp: task task_command_run_def)
  next
    case False
    then show ?thesis
      using assms make_task_error_argument [of kvs "''A `command` must be specified''"]
      by (auto simp: task task_command_run_def)
  qed
qed

lemma command_run_not_allowed:
  assumes "dict_get task ''command'' = Inr cmd"
    and "truthy cmd" and "\<not> in_strings cmd SAFE_COMMANDS"
  shows "\<exists>r. task_command_run h w task = (Inr r, w) \<and> is_argument_error r \<and>
             error_message r =
               Inr (PStr (''The command `'' @ py_str h cmd @ ''` is not currently available to run''))"
proof -
  from assms(1) obtain kvs where task: "task = PDict kvs"
    using dict_get_is_dict by blast
  have "truthy task" using assms(1,2) dict_get_truthy by fastforce
  then show ?thesis
    using assms make_task_error_argument [of kvs]
    by (auto simp: task task_command_run_def)
qed

lemma command_run_allowed:
  assumes "dict_get task ''command'' = Inr cmd"
    and "truthy cmd" and "in_strings cmd SAFE_COMMANDS"
    and "task_command_run h w task = (Inr r, w')"
  shows "make_task_success task = Inr r"
proof -
  have "truthy task" using assms(1,2) dict_get_truthy by fastforce
  then show ?thesis
    using assms unfolding task_command_run_def
    by (auto split: sum.splits prod.splits)
qed

text \<open>
  C7. For a task (a dict) whose \<open>command\<close> is absent (\<^verbatim>\<open>task.get('command')\<close> is \<open>None\<close>
  or another false value), \<^verbatim>\<open>command/run\<close> returns an \<open>argument\<close> error Result. For a
  command that is given and is not in the allow-list, it returns an \<open>argument\<close> error
  Result whose message is \<^verbatim>\<open>The command `<command>` is not currently available to run\<close>
  with the command printed by \<^verbatim>\<open>%s\<close>, which for a string is the string itself. In both
  cases nothing is run: the world is unchanged.
\<close>

theorem command_run_rejects:
  assumes "dict_get task ''command'' = Inr cmd"
  shows "(\<not> truthy cmd \<longrightarrow>
            (\<exists>r. task_command_run h w task = (Inr r, w) \<and> is_argument_error r))
       \<and> (truthy cmd \<and> \<not> in_strings cmd SAFE_COMMANDS \<longrightarrow>
            (\<exists>r. task_command_run h w task = (Inr r, w) \<and> is_argument_error r \<and>
                 error_message r =
                   Inr (PStr (''The command `'' @ py_str h cmd @ ''` is not currently available to run''))))
       \<and> py_str h (PStr s) = s"
  using command_run_absent [OF assms] command_run_not_allowed [OF assms]
  by (simp add: py_str_def)

text \<open>
  The scenario of the specification: the task
  \<^verbatim>\<open>{id: "3", action: "command/run", command: "curl"}\<close> is answered with an \<open>argument\<close>
  error that names \<^verbatim>\<open>curl\<close>; a task without a command is answered with an \<open>argument\<close>
  error as well.
\<close>

theorem command_run_rejects_witness:
  "dict_get (PDict [(''id'', PStr ''3''), (''action'', PStr ''command/run''),
                    (''command'', PStr ''curl'')]) ''command'' = Inr (PStr ''curl'')
   \<and> truthy (PStr ''curl'') \<and> \<not> in_strings (PStr ''curl'') SAFE_COMMANDS
   \<and> (\<exists>r. task_command_run example_host example_world
              (PDict [(''id'', PStr ''3''), (''action'', PStr ''command/run''),
                      (''command'', PStr ''curl'')]) = (Inr r, example_world)
          \<and> is_argument_error r
          \<and> error_message r = Inr (PStr ''The command `curl` is not currently available to run''))
   \<and> dict_get (PDict [(''id'', PStr ''4''), (''action'', PStr ''command/run'')]) ''command''
        = Inr PNone
   \<and> \<not> truthy PNone
   \<and> (\<exists>r. task_command_run example_host example_world
              (PDict [(''id'', PStr ''4''), (''action'', PStr ''command/run'')])
            = (Inr r, example_world) \<and> is_argument_error r)"
proof -
  let ?curl = "PDict [(''id'', PStr ''3''), (''action'', PStr ''command/run''),
                      (''command'', PStr ''curl'')]"
  let ?none = "PDict [(''id'', PStr ''4''), (''action'', PStr ''command/run'')]"
  have c: "dict_get ?curl ''command'' = Inr (PStr ''curl'')"
    and n: "dict_get ?none ''command'' = Inr PNone"
    by (simp_all add: dict_get_def)
  have t: "truthy (PStr ''curl'') \<and> \<not> in_strings (PStr ''curl'') SAFE_COMMANDS"
    by (simp add: SAFE_COMMANDS_def)
  have 1: "\<exists>r. task_command_run example_host example_world ?curl = (Inr r, example_world)
          \<and> is_argument_error r
          \<and> error_message r = Inr (PStr ''The command `curl` is not currently available to run'')"
    using command_run_rejects [OF c, where h = example_host and w = example_world
        and s = "''curl''"] t
    by (simp add: py_str_def)
  have 2: "\<exists>r. task_command_run example_host example_world ?none = (Inr r, example_world)
            \<and> is_argument_error r"
    using command_run_rejects [OF n, of example_host example_world] by simp
  show ?thesis
    using c n t 1 2 by simp
qed

text \<open>
  C10. The allow-list is the four strings \<^verbatim>\<open>python\<close>, \<^verbatim>\<open>node\<close>, \<^verbatim>\<open>git\<close> and \<^verbatim>\<open>uv\<close>. For a
  task whose \<open>command\<close> is a string, \<^verbatim>\<open>command/run\<close> returns an \<open>argument\<close> error Result
  exactly when the string is not one of the four, compared character by character, and
  then runs nothing. \<^verbatim>\<open>Python\<close> and \<^verbatim>\<open>/usr/bin/python\<close> are not among the four.
\<close>

theorem allow_list_exact:
  assumes "dict_get task ''command'' = Inr (PStr s)"
  shows "SAFE_COMMANDS = [''python'', ''node'', ''git'', ''uv'']
       \<and> ((\<exists>r w'. task_command_run h w task = (Inr r, w') \<and> is_argument_error r)
            \<longleftrightarrow> s \<notin> {''python'', ''node'', ''git'', ''uv''})
       \<and> (s \<notin> {''python'', ''node'', ''git'', ''uv''} \<longrightarrow> snd (task_command_run h w task) = w)
       \<and> ''Python'' \<notin> {''python'', ''node'', ''git'', ''uv''}
       \<and> ''/usr/bin/python'' \<notin> {''python'', ''node'', ''git'', ''uv''}"
proof -
  have rej: "\<exists>r. task_command_run h w task = (Inr r, w) \<and> is_argument_error r"
    if "s \<notin> {''python'', ''node'', ''git'', ''uv''}"
  proof (cases "s = []")
    case True
    then show ?thesis using command_run_absent [OF assms] by simp
  next
    case False
    moreover have "\<not> in_strings (PStr s) SAFE_COMMANDS"
      using that by (simp add: SAFE_COMMANDS_def)
    ultimately show ?thesis using command_run_not_allowed [OF assms] by auto
  qed
  have acc: "\<not> is_argument_error r"
    if "s \<in> {''python'', ''node'', ''git'', ''uv''}" "task_command_run h w task = (Inr r, w')"
    for r w'
  proof -
    have "truthy (PStr s)" "in_strings (PStr s) SAFE_COMMANDS"
      using that(1) by (auto simp: SAFE_COMMANDS_def)
    then have "make_task_success task = Inr r"
      using command_run_allowed [OF assms _ _ that(2)] by simp
    then show ?thesis by (rule make_task_success_not_error)
  qed
  have iff: "(\<exists>r w'. task_command_run h w task = (Inr r, w') \<and> is_argument_error r)
            \<longleftrightarrow> s \<notin> {''python'', ''node'', ''git'', ''uv''}"
    using rej acc by blast
  have unchanged: "snd (task_command_run h w task) = w"
    if "s \<notin> {''python'', ''node'', ''git'', ''uv''}"
    using rej [OF that] by auto
  show ?thesis
    using iff unchanged by (simp add: SAFE_COMMANDS_def)
qed

subsection \<open>The file handlers, branch by branch\<close>

lemma task_with_path:
  assumes "dict_get task ''path'' = Inr pv" and "Path pv = Inr p"
  shows "truthy task" and "\<exists>kvs. task = PDict kvs"
  using assms dict_get_truthy [OF assms(1)] dict_get_is_dict [OF assms(1)]
  by (auto simp: field_def)

lemma encoding_entry:
  assumes "map_of ckvs ''encoding'' = None \<and> e = ''utf-8'' \<or>
           map_of ckvs ''encoding'' = Some (PStr e)"
  shows "dict_get_default (PDict ckvs) ''encoding'' (PStr DEFAULT_ENCODING) = Inr (PStr e)"
  using assms by (auto simp: DEFAULT_ENCODING_def)

lemma write_content_ok:
  assumes "locate w p = Inr q" and "open_error w q = None"
    and "text_encode h e = Some f" and "map_of ckvs ''value'' = Some (PStr v)"
    and "f v = Some b"
  shows "write_content h w p (PStr e) (PDict ckvs) =
           (Inr (), w\<lparr>files := (files w)(q \<mapsto> File b)\<rparr>)"
  using assms
  by (simp add: write_content_def path_open_w_def dict_get_def file_write_def)




lemma file_create_file:
  assumes "dict_get task ''path'' = Inr pv" and "Path pv = Inr p"
    and "locate w p = Inr q" and "files w q = None" and "parent_check (files w) q = None"
    and "dict_get task ''content'' = Inr (PDict ckvs)"
    and "map_of ckvs ''value'' = Some (PStr v)"
    and "map_of ckvs ''encoding'' = None \<and> e = ''utf-8'' \<or>
         map_of ckvs ''encoding'' = Some (PStr e)"
    and "text_encode h e = Some f" and "f v = Some b"
  shows "task_file_create h w task =
           (make_task_success task, w\<lparr>files := (files w)(q \<mapsto> File b)\<rparr>)"
proof -
  from task_with_path [OF assms(1,2)] have t: "truthy task" by blast
  have c: "truthy (PDict ckvs)" using assms(7) by auto
  have o: "open_error w q = None" using assms(4,5) by (simp add: open_error_def)
  show ?thesis
    using t c assms(1-4,6) encoding_entry [OF assms(8)]
      write_content_ok [OF assms(3) o assms(9,7,10)]
    by (simp add: task_file_create_def path_exists_def)
qed










subsection \<open>\<^verbatim>\<open>file/create\<close>\<close>

lemma locate_example_root:
  "locate example_world \<lparr>root = ''/'', parts = [''tmp'', ''x'', c]\<rparr> =
     Inr (if c = ''..'' then [''tmp''] else [''tmp'', ''x'', c])"
  by (simp add: locate_def example_world_def)



lemma utf8_hi: "utf8_encode ''hi'' = ''hi''"
  by (simp add: utf8_encode_def)

lemma example_utf8: "text_encode example_host ''utf-8'' = Some (\<lambda>s. Some (utf8_encode s))"
  by (simp add: example_host_def)



subsection \<open>\<^verbatim>\<open>file/edit\<close>\<close>





subsection \<open>Content without a value\<close>



subsection \<open>The handlers on the example world\<close>

lemma example_curl:
  "task_command_run example_host example_world
     (PDict [(''id'', PStr ''3''), (''action'', PStr ''command/run''),
             (''command'', PStr ''curl'')])
   = (Inr (PDict [(''id'', PStr ''3''), (''action'', PStr ''command/run''),
                  (''success'', PBool False),
                  (''error'',
                   PDict [(''type'', PStr ''argument''),
                          (''message'',
                           PStr ''The command `curl` is not currently available to run'')])]),
      example_world)"
  by (simp add: task_command_run_def dict_get_def SAFE_COMMANDS_def make_task_error_def
      py_str_def)

lemma example_create_a_txt:
  "task_file_create example_host example_world
     (PDict [(''id'', PStr ''1''), (''action'', PStr ''file/create''),
             (''path'', PStr ''/tmp/x/a.txt''),
             (''content'', PDict [(''value'', PStr ''hi'')])])
   = (Inr (PDict [(''id'', PStr ''1''), (''action'', PStr ''file/create''),
                  (''success'', PBool True)]),
      example_world\<lparr>files := (files example_world)([''tmp'', ''x'', ''a.txt''] \<mapsto> File ''hi'')\<rparr>)"
proof -
  let ?c = "[(''value'', PStr ''hi'')]"
  let ?t = "PDict [(''id'', PStr ''1''), (''action'', PStr ''file/create''),
                   (''path'', PStr ''/tmp/x/a.txt''), (''content'', PDict ?c)]"
  let ?p = "\<lparr>root = ''/'', parts = [''tmp'', ''x'', ''a.txt'']\<rparr>"
  let ?q = "[''tmp'', ''x'', ''a.txt'']"
  have g: "dict_get ?t ''path'' = Inr (PStr ''/tmp/x/a.txt'')"
    and c: "dict_get ?t ''content'' = Inr (PDict ?c)"
    by (simp_all add: dict_get_def)
  have p: "Path (PStr ''/tmp/x/a.txt'') = Inr ?p"
    by (simp add: path_root_def path_parts_def)
  have l: "locate example_world ?p = Inr ?q"
    by (simp add: locate_example_root)
  have f: "files example_world ?q = None"
    and pc: "parent_check (files example_world) ?q = None"
    by (simp_all add: example_world_def parent_check_def)
  have v: "map_of ?c ''value'' = Some (PStr ''hi'')"
    and e: "map_of ?c ''encoding'' = None \<and> ''utf-8'' = ''utf-8'' \<or>
            map_of ?c ''encoding'' = Some (PStr ''utf-8'')"
    by simp_all
  have b: "Some (utf8_encode ''hi'') = Some ''hi''"
    by (simp add: utf8_hi)
  show ?thesis
    using file_create_file [OF g p l f pc c v e example_utf8 b]
    by (simp add: make_task_success_dict field_def)
qed

text \<open>
  The correlation of C2 on a success path (the \<^verbatim>\<open>file/create\<close> scenario of the
  specification) and on an error path (the \<^verbatim>\<open>curl\<close> scenario).
\<close>

theorem handler_result_correlates_witness:
  "task_file_create \<in> snd ` set TASKS
   \<and> task_file_create example_host example_world
        (PDict [(''id'', PStr ''1''), (''action'', PStr ''file/create''),
                (''path'', PStr ''/tmp/x/a.txt''),
                (''content'', PDict [(''value'', PStr ''hi'')])])
      = (Inr (PDict [(''id'', PStr ''1''), (''action'', PStr ''file/create''),
                     (''success'', PBool True)]),
         example_world\<lparr>files := (files example_world)([''tmp'', ''x'', ''a.txt''] \<mapsto> File ''hi'')\<rparr>)
   \<and> dict_get (PDict [(''id'', PStr ''1''), (''action'', PStr ''file/create''),
                      (''success'', PBool True)]) ''id''
      = dict_get (PDict [(''id'', PStr ''1''), (''action'', PStr ''file/create''),
                         (''path'', PStr ''/tmp/x/a.txt''),
                         (''content'', PDict [(''value'', PStr ''hi'')])]) ''id''
   \<and> dict_get (PDict [(''id'', PStr ''1''), (''action'', PStr ''file/create''),
                      (''success'', PBool True)]) ''action''
      = dict_get (PDict [(''id'', PStr ''1''), (''action'', PStr ''file/create''),
                         (''path'', PStr ''/tmp/x/a.txt''),
                         (''content'', PDict [(''value'', PStr ''hi'')])]) ''action''
   \<and> task_command_run \<in> snd ` set TASKS
   \<and> (\<exists>r. task_command_run example_host example_world
              (PDict [(''id'', PStr ''3''), (''action'', PStr ''command/run''),
                      (''command'', PStr ''curl'')]) = (Inr r, example_world)
          \<and> dict_get r ''success'' = Inr (PBool False)
          \<and> dict_get r ''id'' = Inr (PStr ''3'')
          \<and> dict_get r ''action'' = Inr (PStr ''command/run''))"
proof -
  let ?t1 = "PDict [(''id'', PStr ''1''), (''action'', PStr ''file/create''),
                    (''path'', PStr ''/tmp/x/a.txt''),
                    (''content'', PDict [(''value'', PStr ''hi'')])]"
  let ?t3 = "PDict [(''id'', PStr ''3''), (''action'', PStr ''command/run''),
                    (''command'', PStr ''curl'')]"
  have m1: "task_file_create \<in> snd ` set TASKS" and m3: "task_command_run \<in> snd ` set TASKS"
    by (simp_all add: TASKS_def)
  note c1 = handler_result_correlates [OF m1 example_create_a_txt]
  note c3 = handler_result_correlates [OF m3 example_curl]
  have "dict_get ?t3 ''id'' = Inr (PStr ''3'')"
    and "dict_get ?t3 ''action'' = Inr (PStr ''command/run'')"
    by (simp_all add: dict_get_def)
  with c3 have 3: "\<exists>r. task_command_run example_host example_world ?t3 = (Inr r, example_world)
          \<and> dict_get r ''success'' = Inr (PBool False)
          \<and> dict_get r ''id'' = Inr (PStr ''3'')
          \<and> dict_get r ''action'' = Inr (PStr ''command/run'')"
    using example_curl by (simp add: dict_get_def)
  show ?thesis
    using m1 m3 example_create_a_txt c1 3 by simp
qed

text \<open>
  The allow-list of C10 on three commands: \<^verbatim>\<open>Python\<close> and \<^verbatim>\<open>/usr/bin/python\<close> are refused,
  \<^verbatim>\<open>python\<close> is not.
\<close>

theorem allow_list_exact_witness:
  "dict_get (PDict [(''id'', PStr ''3''), (''action'', PStr ''command/run''),
                    (''command'', PStr ''Python'')]) ''command'' = Inr (PStr ''Python'')
   \<and> (\<exists>r w'. task_command_run example_host example_world
                (PDict [(''id'', PStr ''3''), (''action'', PStr ''command/run''),
                        (''command'', PStr ''Python'')]) = (Inr r, w')
            \<and> is_argument_error r)
   \<and> snd (task_command_run example_host example_world
            (PDict [(''id'', PStr ''3''), (''action'', PStr ''command/run''),
                    (''command'', PStr ''Python'')])) = example_world
   \<and> dict_get (PDict [(''id'', PStr ''3''), (''action'', PStr ''command/run''),
                      (''command'', PStr ''/usr/bin/python'')]) ''command''
       = Inr (PStr ''/usr/bin/python'')
   \<and> (\<exists>r w'. task_command_run example_host example_world
                (PDict [(''id'', PStr ''3''), (''action'', PStr ''command/run''),
                        (''command'', PStr ''/usr/bin/python'')]) = (Inr r, w')
            \<and> is_argument_error r)
   \<and> dict_get (PDict [(''id'', PStr ''3''), (''action'', PStr ''command/run''),
                      (''command'', PStr ''python'')]) ''command'' = Inr (PStr ''python'')
   \<and> \<not> (\<exists>r w'. task_command_run example_host example_world
                  (PDict [(''id'', PStr ''3''), (''action'', PStr ''command/run''),
                          (''command'', PStr ''python'')]) = (Inr r, w')
              \<and> is_argument_error r)"
proof -
  let ?P = "PDict [(''id'', PStr ''3''), (''action'', PStr ''command/run''),
                   (''command'', PStr ''Python'')]"
  let ?u = "PDict [(''id'', PStr ''3''), (''action'', PStr ''command/run''),
                   (''command'', PStr ''/usr/bin/python'')]"
  let ?p = "PDict [(''id'', PStr ''3''), (''action'', PStr ''command/run''),
                   (''command'', PStr ''python'')]"
  have gP: "dict_get ?P ''command'' = Inr (PStr ''Python'')"
    and gu: "dict_get ?u ''command'' = Inr (PStr ''/usr/bin/python'')"
    and gp: "dict_get ?p ''command'' = Inr (PStr ''python'')"
    by (simp_all add: dict_get_def)
  note aP = allow_list_exact [OF gP, of example_host example_world]
  note au = allow_list_exact [OF gu, of example_host example_world]
  note ap = allow_list_exact [OF gp, of example_host example_world]
  have 1: "(\<exists>r w'. task_command_run example_host example_world ?P = (Inr r, w')
             \<and> is_argument_error r)
           \<and> snd (task_command_run example_host example_world ?P) = example_world"
    using aP by simp
  have 2: "\<exists>r w'. task_command_run example_host example_world ?u = (Inr r, w')
             \<and> is_argument_error r"
    using au by simp
  have 3: "\<not> (\<exists>r w'. task_command_run example_host example_world ?p = (Inr r, w')
             \<and> is_argument_error r)"
    using ap by simp
  show ?thesis
    using gP gu gp 1 2 3 by simp
qed

subsection \<open>The builders on any value\<close>




subsection \<open>The dispatcher\<close>

lemma module_registry_eq:
  "TASK_ACTION_HANDLERS = Inr module_registry"
  by (simp add: module_registry_def TASK_ACTION_HANDLERS_def TASKS_def
      register_task_action_handler_def)

lemma module_registry_lookup:
  "module_registry a =
     (if a = ''command/run'' then Some task_command_run
      else if a = ''file/delete'' then Some task_file_delete
      else if a = ''file/edit'' then Some task_file_edit
      else if a = ''file/create'' then Some task_file_create
      else None)"
  by (simp add: module_registry_def TASK_ACTION_HANDLERS_def TASKS_def
      register_task_action_handler_def)

text \<open>
  C3. The dispatcher raises, and returns no Result, when the task is absent (\<open>None\<close>, or
  empty), when the task has no \<open>id\<close> (\<^verbatim>\<open>task.get('id')\<close> is \<open>None\<close> or another false value),
  when its \<open>action\<close> is empty, and when its \<open>action\<close> is a string no handler is registered
  under; the world is left as it was. Registering a handler under an action that is bound
  raises as well. Each exception is a \<open>ValueError\<close> with the message of the source.
\<close>

theorem dispatcher_violations_raise:
  "(\<not> truthy task \<longrightarrow>
      run_task h reg w task = (Inl (ValueError ''`task` must be specified''), w))
   \<and> (truthy task \<and> dict_get task ''id'' = Inr i \<and> \<not> truthy i \<longrightarrow>
      run_task h reg w task = (Inl (ValueError ''`task` must be have a `id` specified''), w))
   \<and> (truthy task \<and> dict_get task ''id'' = Inr i \<and> truthy i
        \<and> dict_get task ''action'' = Inr a \<and> \<not> truthy a \<longrightarrow>
      run_task h reg w task = (Inl (ValueError ''`handler` must be specified''), w))
   \<and> (truthy task \<and> dict_get task ''id'' = Inr i \<and> truthy i
        \<and> dict_get task ''action'' = Inr (PStr s) \<and> s \<noteq> [] \<and> reg s = None \<longrightarrow>
      run_task h reg w task =
        (Inl (ValueError (''A handler for `'' @ s @ ''` does not exist.'')), w))
   \<and> (reg s = Some old \<longrightarrow>
      register_task_action_handler reg s new =
        Inl (ValueError (''A handler for `'' @ s @ ''` already exists. Actions must be unique.'')))"
  by (simp add: run_task_def get_task_action_handler_def register_task_action_handler_def)

text \<open>
  With the registry the module builds at import: the absent task, the empty task, a task
  without \<open>id\<close>, a task without \<open>action\<close>, the unregistered action \<^verbatim>\<open>file/rename\<close>, and a
  second registration of \<^verbatim>\<open>file/create\<close>.
\<close>

theorem dispatcher_violations_raise_witness:
  "\<not> truthy PNone
   \<and> run_task example_host module_registry example_world PNone
       = (Inl (ValueError ''`task` must be specified''), example_world)
   \<and> \<not> truthy (PDict [])
   \<and> run_task example_host module_registry example_world (PDict [])
       = (Inl (ValueError ''`task` must be specified''), example_world)
   \<and> run_task example_host module_registry example_world
        (PDict [(''action'', PStr ''file/create''), (''path'', PStr ''/tmp/x/a.txt'')])
       = (Inl (ValueError ''`task` must be have a `id` specified''), example_world)
   \<and> run_task example_host module_registry example_world
        (PDict [(''id'', PStr ''1''), (''path'', PStr ''/tmp/x/a.txt'')])
       = (Inl (ValueError ''`handler` must be specified''), example_world)
   \<and> module_registry ''file/rename'' = None
   \<and> run_task example_host module_registry example_world
        (PDict [(''id'', PStr ''1''), (''action'', PStr ''file/rename'')])
       = (Inl (ValueError ''A handler for `file/rename` does not exist.''), example_world)
   \<and> module_registry ''file/create'' = Some task_file_create
   \<and> register_task_action_handler module_registry ''file/create'' task_file_edit
       = Inl (ValueError ''A handler for `file/create` already exists. Actions must be unique.'')"
proof -
  let ?noid = "PDict [(''action'', PStr ''file/create''), (''path'', PStr ''/tmp/x/a.txt'')]"
  let ?noact = "PDict [(''id'', PStr ''1''), (''path'', PStr ''/tmp/x/a.txt'')]"
  let ?unk = "PDict [(''id'', PStr ''1''), (''action'', PStr ''file/rename'')]"
  have r: "module_registry ''file/rename'' = None"
    and c: "module_registry ''file/create'' = Some task_file_create"
    by (simp_all add: module_registry_lookup)
  have 1: "run_task example_host module_registry example_world PNone
       = (Inl (ValueError ''`task` must be specified''), example_world)"
    using dispatcher_violations_raise [where task = PNone and h = example_host
        and reg = module_registry and w = example_world]
    by simp
  have 2: "run_task example_host module_registry example_world (PDict [])
       = (Inl (ValueError ''`task` must be specified''), example_world)"
    using dispatcher_violations_raise [where task = "PDict []" and h = example_host
        and reg = module_registry and w = example_world]
    by simp
  have 3: "run_task example_host module_registry example_world ?noid
       = (Inl (ValueError ''`task` must be have a `id` specified''), example_world)"
    using dispatcher_violations_raise [where task = ?noid and i = PNone and h = example_host
        and reg = module_registry and w = example_world]
    by (simp add: dict_get_def)
  have 4: "run_task example_host module_registry example_world ?noact
       = (Inl (ValueError ''`handler` must be specified''), example_world)"
    using dispatcher_violations_raise [where task = ?noact and i = "PStr ''1''" and a = PNone
        and h = example_host and reg = module_registry and w = example_world]
    by (simp add: dict_get_def)
  have 5: "run_task example_host module_registry example_world ?unk
       = (Inl (ValueError ''A handler for `file/rename` does not exist.''), example_world)"
    using dispatcher_violations_raise [where task = ?unk and i = "PStr ''1''"
        and s = "''file/rename''" and h = example_host and reg = module_registry
        and w = example_world] r
    by (simp add: dict_get_def)
  have 6: "register_task_action_handler module_registry ''file/create'' task_file_edit
       = Inl (ValueError ''A handler for `file/create` already exists. Actions must be unique.'')"
    using dispatcher_violations_raise [where reg = module_registry and s = "''file/create''"
        and old = task_file_create and new = task_file_edit] c
    by simp
  show ?thesis
    using r c 1 2 3 4 5 6 by simp
qed

subsection \<open>What \<^verbatim>\<open>command/run\<close> executes\<close>

text \<open>
  For an allow-listed command, a list of strings as arguments (none when the entry is
  missing), a string or nothing as path and a dict of strings or nothing as environment,
  the handler has one process executed and waits for it: the shell, with the command and
  the arguments after \<^verbatim>\<open>-c\<close>, in the given directory and environment (\<open>None\<close>: those of the
  server). Exit status 0 gives the success Result; any other status and a failed start
  raise.
\<close>

lemma command_run_call:
  assumes "dict_get task ''command'' = Inr (PStr c)" and "c \<in> set SAFE_COMMANDS"
    and "dict_get_default task ''arguments'' (PList []) = Inr (PList args)"
    and "str_items args = Inr strs"
    and "dict_get task ''path'' = Inr cwd_v" and "cwd_arg cwd_v = Inr dir"
    and "dict_get task ''environment'' = Inr env_v" and "env_arg env_v = Inr envl"
  shows "task_command_run h w task =
           (case run_process h
                   \<lparr>argv = ''/bin/sh'' # ''-c'' # c # strs, call_cwd = dir, call_env = envl\<rparr> w of
              (Inl e, w') \<Rightarrow> (Inl e, w')
            | (Inr rc, w') \<Rightarrow>
                if rc \<noteq> 0 then (Inl (CalledProcessError rc), w')
                else (make_task_success task, w'))"
proof -
  have c: "c \<noteq> []" using assms(2) by (auto simp: SAFE_COMMANDS_def)
  then have "truthy task" using assms(1) dict_get_truthy by fastforce
  then show ?thesis
    using assms c
    by (auto simp: task_command_run_def subprocess_run_def split: prod.splits sum.splits)
qed

text \<open>
  C1 fails on the arguments. The task \<^verbatim>\<open>{command: "git", arguments: ["status"]}\<close> has
  \<^verbatim>\<open>/bin/sh -c git status\<close> executed: the shell runs the script \<^verbatim>\<open>git\<close> and keeps \<^verbatim>\<open>status\<close>
  as its own \<^verbatim>\<open>$0\<close>, so \<^verbatim>\<open>git\<close> starts with no argument at all, where the claim has it
  started with the argument vector \<^verbatim>\<open>status\<close>.
\<close>

theorem command_run_arguments_reach_the_shell:
  "task_command_run h w
     (PDict [(''id'', PStr ''1''), (''action'', PStr ''command/run''),
             (''command'', PStr ''git''), (''arguments'', PList [PStr ''status''])])
   = (case run_process h
             \<lparr>argv = [''/bin/sh'', ''-c'', ''git'', ''status''],
              call_cwd = None, call_env = None\<rparr> w of
        (Inl e, w') \<Rightarrow> (Inl e, w')
      | (Inr rc, w') \<Rightarrow>
          if rc \<noteq> 0 then (Inl (CalledProcessError rc), w')
          else (Inr (PDict [(''id'', PStr ''1''), (''action'', PStr ''command/run''),
                            (''success'', PBool True)]), w'))
   \<and> sh_c_program_argv [''/bin/sh'', ''-c'', ''git'', ''status''] = Some [''git'']"
proof -
  let ?t = "PDict [(''id'', PStr ''1''), (''action'', PStr ''command/run''),
                   (''command'', PStr ''git''), (''arguments'', PList [PStr ''status''])]"
  have a: "task_command_run h w ?t =
           (case run_process h
                   \<lparr>argv = ''/bin/sh'' # ''-c'' # ''git'' # [''status''],
                    call_cwd = None, call_env = None\<rparr> w of
              (Inl e, w') \<Rightarrow> (Inl e, w')
            | (Inr rc, w') \<Rightarrow>
                if rc \<noteq> 0 then (Inl (CalledProcessError rc), w')
                else (make_task_success ?t, w'))"
    by (rule command_run_call [where args = "[PStr ''status'']" and cwd_v = PNone
          and env_v = PNone])
      (simp_all add: dict_get_def SAFE_COMMANDS_def)
  have b: "make_task_success ?t =
      Inr (PDict [(''id'', PStr ''1''), (''action'', PStr ''command/run''),
                  (''success'', PBool True)])"
    by (simp add: make_task_success_dict field_def)
  have c: "sh_c_program_argv [''/bin/sh'', ''-c'', ''git'', ''status''] = Some [''git'']"
    by (simp add: plain_char_def)
  show ?thesis
    unfolding a b using c by simp
qed

end
